theory Spec2Isabelle
  imports Main
begin

section \<open>Python values, exceptions and stateful computations\<close>

text \<open>
  The library under study is the class \<open>NetAppBlockStorageCmodeLibrary\<close> of
  \<open>cinder/volume/drivers/netapp/dataontap/block_cmode.py\<close>. Its methods mutate the
  attributes of \<open>self\<close> and may raise, so a method is a function from the driver state
  to an outcome (an exception or a value) paired with the state it leaves behind.
  An exception keeps the state reached at the point where it is raised.
\<close>

datatype exc =
    KeyError string
  | TypeError
  | VolumeBackendAPIException string
  | Raised string

type_synonym ('s, 'a) prog = "'s \<Rightarrow> (exc + 'a) \<times> 's"

definition ret :: "'a \<Rightarrow> ('s, 'a) prog" where
  "ret x s = (Inr x, s)"

definition throw :: "exc \<Rightarrow> ('s, 'a) prog" where
  "throw e s = (Inl e, s)"

definition seq :: "('s, 'a) prog \<Rightarrow> ('a \<Rightarrow> ('s, 'b) prog) \<Rightarrow> ('s, 'b) prog" where
  "seq m f s = (case m s of (Inl e, s') \<Rightarrow> (Inl e, s') | (Inr x, s') \<Rightarrow> f x s')"

definition gets :: "('s \<Rightarrow> 'a) \<Rightarrow> ('s, 'a) prog" where
  "gets f s = (Inr (f s), s)"

definition modify :: "('s \<Rightarrow> 's) \<Rightarrow> ('s, unit) prog" where
  "modify f s = (Inr (), f s)"

text \<open>Subscripting a dict: \<open>d[k]\<close> raises \<open>KeyError\<close> on a missing key.\<close>

definition subscript :: "(string \<rightharpoonup> 'v) \<Rightarrow> string \<Rightarrow> ('s, 'v) prog" where
  "subscript d k = (case d k of None \<Rightarrow> throw (KeyError k) | Some v \<Rightarrow> ret v)"

text \<open>\<open>'%s' % v\<close> for a value that is a string or \<open>None\<close>.\<close>

definition py_str :: "string option \<Rightarrow> string" where
  "py_str v = (case v of None \<Rightarrow> ''None'' | Some x \<Rightarrow> x)"

text \<open>Truth value of a value that is a string or \<open>None\<close>.\<close>

definition truthy :: "string option \<Rightarrow> bool" where
  "truthy v = (case v of None \<Rightarrow> False | Some x \<Rightarrow> x \<noteq> [])"

text \<open>\<open>six.text_type(b).lower()\<close> for a boolean \<open>b\<close>.\<close>

definition text_lower :: "bool \<Rightarrow> string" where
  "text_lower b = (if b then ''true'' else ''false'')"

section \<open>Data model\<close>

text \<open>
  Modelled from the spec: the class \<open>ssc_cmode.NetAppVolume\<close>, which lives outside
  \<open>block_cmode.py\<close>. A pool carries an identity (\<open>id['name']\<close>, \<open>id['vserver']\<close>), the dict
  \<open>space\<close> of raw capacity values and the dict \<open>aggr\<close> of aggregate attributes. The
  constructor fills in the identity and leaves the other dicts empty. Set membership and
  equality of pools go by identity: pool name plus owning context.
\<close>

type_synonym pool_id = "string option \<times> string option"

record 'r NetAppVolume =
  id_name :: "string option"
  id_vserver :: "string option"
  space :: "string \<rightharpoonup> 'r"
  aggr :: "string \<rightharpoonup> string option"

definition NetAppVolume_init :: "string option \<Rightarrow> string option \<Rightarrow> 'r NetAppVolume" where
  "NetAppVolume_init name vs =
     \<lparr>id_name = name, id_vserver = vs, space = Map.empty, aggr = Map.empty\<rparr>"

definition vol_key :: "'r NetAppVolume \<Rightarrow> pool_id" where
  "vol_key v = (id_name v, id_vserver v)"

definition vol_in :: "'r NetAppVolume \<Rightarrow> 'r NetAppVolume list \<Rightarrow> bool" where
  "vol_in v vs = list_ex (\<lambda>w. vol_key w = vol_key v) vs"

text \<open>
  Modelled from the spec: the class \<open>block_base.NetAppLun\<close>, which lives outside
  \<open>block_cmode.py\<close>. A tracked LUN has a handle, a name, a size and a metadata dict;
  \<open>get_metadata_property\<close> reads one recorded property and yields \<open>None\<close> when it is
  not recorded.
\<close>

record NetAppLun =
  l_handle :: string
  l_name :: string
  l_size :: "string option"
  l_metadata :: "string \<rightharpoonup> string option"

definition get_metadata_property :: "NetAppLun \<Rightarrow> string \<Rightarrow> string option" where
  "get_metadata_property lun prop = (case l_metadata lun prop of None \<Rightarrow> None | Some v \<Rightarrow> v)"

text \<open>
  The attributes of \<open>self\<close> that the methods below read or write. \<open>ssc_vols\<close> is
  \<open>None\<close> until the first refresh and afterwards a dict from a classification name to a
  set of pools; \<open>stale_vols\<close> is a set of pools, held here by identity;
  \<open>zapi_client\<close> is the state of the backend client, of which nothing is assumed.
\<close>

record ('b, 'r, 'f) driver =
  vserver :: string
  netapp_size_multiplier :: 'f
  ssc_vols :: "(string \<times> 'r NetAppVolume list) list option"
  stale_vols :: "pool_id set"
  lun_table :: "string \<rightharpoonup> NetAppLun"
  zapi_client :: 'b

text \<open>A call on \<open>self.zapi_client\<close>: it runs on the client's state alone.\<close>

definition on_client ::
  "('b \<Rightarrow> (exc + 'a) \<times> 'b) \<Rightarrow> (('b, 'r, 'f) driver, 'a) prog" where
  "on_client call s =
     (case call (zapi_client s) of (r, b') \<Rightarrow> (r, s\<lparr>zapi_client := b'\<rparr>))"

section \<open>The invalidation set\<close>

text \<open>
  \<open>_update_stale_vols(self, volume=None, reset=False)\<close>. An instance of
  \<open>NetAppVolume\<close> is true in a condition, \<open>None\<close> is not. Without \<open>reset\<close> the
  method falls off its end and returns \<open>None\<close>.
\<close>

definition update_stale_vols ::
  "'r NetAppVolume option \<Rightarrow> bool \<Rightarrow> (('b, 'r, 'f) driver, pool_id set option) prog" where
  "update_stale_vols volume reset =
     seq (case volume of
            Some v \<Rightarrow> modify (\<lambda>s. s\<lparr>stale_vols := insert (vol_key v) (stale_vols s)\<rparr>)
          | None \<Rightarrow> ret ())
      (\<lambda>_. if reset then
              seq (gets stale_vols)
               (\<lambda>set_copy. seq (modify (\<lambda>s. s\<lparr>stale_vols := {}\<rparr>))
               (\<lambda>_. ret (Some set_copy)))
            else ret None)"

section \<open>LUN lifecycle operations\<close>

text \<open>
  The backend client (\<open>self.zapi_client\<close>) and the methods inherited from
  \<open>block_base.NetAppBlockStorageLibrary\<close> live outside \<open>block_cmode.py\<close>. Each model
  below takes the ones it calls as its first arguments, named \<open>zapi_...\<close> for the
  client and \<open>base_...\<close> for the base class. A client call runs on the client's state;
  an inherited method runs on the whole of \<open>self\<close>. Nothing else is assumed of them:
  each may raise or return.
\<close>

text \<open>\<open>_create_lun(self, volume_name, lun_name, size, metadata, qos_policy_group=None)\<close>\<close>

definition create_lun ::
  "(string \<Rightarrow> string \<Rightarrow> 'z \<Rightarrow> 'm \<Rightarrow> 'q \<Rightarrow> 'b \<Rightarrow> (exc + unit) \<times> 'b) \<Rightarrow>
   string \<Rightarrow> string \<Rightarrow> 'z \<Rightarrow> 'm \<Rightarrow> 'q \<Rightarrow> (('b, 'r, 'f) driver, unit) prog" where
  "create_lun zapi_create_lun volume_name lun_name size' metadata qos_policy_group =
     seq (on_client (zapi_create_lun volume_name lun_name size' metadata qos_policy_group))
      (\<lambda>_. seq (gets vserver)
      (\<lambda>vs. seq (update_stale_vols
                   (Some (NetAppVolume_init (Some volume_name) (Some vs))) False)
      (\<lambda>_. ret ())))"

text \<open>
  Modelled from the spec: the class \<open>NaElement\<close> of the backend client, which lives
  outside \<open>block_cmode.py\<close>. A raw LUN record maps a child name to its text;
  \<open>get_child_content\<close> yields \<open>None\<close> for a child that is not there.
\<close>

type_synonym NaElement = "string \<rightharpoonup> string"

definition get_child_content :: "NaElement \<Rightarrow> string \<Rightarrow> string option" where
  "get_child_content e k = e k"

text \<open>\<open>_create_lun_meta(self, lun)\<close>\<close>

definition create_lun_meta ::
  "(NaElement \<Rightarrow> 'b \<Rightarrow> (exc + unit) \<times> 'b) \<Rightarrow> NaElement \<Rightarrow>
   (('b, 'r, 'f) driver, string \<rightharpoonup> string option) prog" where
  "create_lun_meta zapi_check_is_naelement lun =
     seq (on_client (zapi_check_is_naelement lun))
      (\<lambda>_. ret (Map.empty
         (''Vserver'' \<mapsto> get_child_content lun ''vserver'',
          ''Volume'' \<mapsto> get_child_content lun ''volume'',
          ''Qtree'' \<mapsto> get_child_content lun ''qtree'',
          ''Path'' \<mapsto> get_child_content lun ''path'',
          ''OsType'' \<mapsto> get_child_content lun ''multiprotocol-type'',
          ''SpaceReserved'' \<mapsto> get_child_content lun ''is-space-reservation-enabled'')))"

text \<open>
  \<open>_clone_lun(self, name, new_name, space_reserved='true', src_block=0, dest_block=0,
  block_count=0)\<close>. \<open>_get_lun_attr\<close> yields the metadata dict of the source LUN or
  \<open>None\<close>; subscripting \<open>None\<close> raises \<open>TypeError\<close>. The translation function
  \<open>_\<close> is taken to return its argument.
\<close>

definition clone_lun ::
  "(string \<Rightarrow> string \<Rightarrow> (('b, 'r, 'f) driver, (string \<rightharpoonup> string option) option) prog) \<Rightarrow>
   (string option \<Rightarrow> string \<Rightarrow> string \<Rightarrow> string \<Rightarrow> int \<Rightarrow> int \<Rightarrow> int \<Rightarrow>
      'b \<Rightarrow> (exc + unit) \<times> 'b) \<Rightarrow>
   (string \<Rightarrow> string \<Rightarrow> 'b \<Rightarrow> (exc + NaElement list) \<times> 'b) \<Rightarrow>
   (NaElement \<Rightarrow> 'b \<Rightarrow> (exc + unit) \<times> 'b) \<Rightarrow>
   (NetAppLun \<Rightarrow> (('b, 'r, 'f) driver, unit) prog) \<Rightarrow>
   string \<Rightarrow> string \<Rightarrow> string \<Rightarrow> int \<Rightarrow> int \<Rightarrow> int \<Rightarrow> (('b, 'r, 'f) driver, unit) prog" where
  "clone_lun base_get_lun_attr zapi_clone_lun zapi_get_lun_by_args zapi_check_is_naelement
       base_add_lun_to_table name new_name space_reserved src_block dest_block block_count =
     seq (base_get_lun_attr name ''metadata'')
      (\<lambda>metadata. seq (case metadata of None \<Rightarrow> throw TypeError
                                     | Some md \<Rightarrow> subscript md ''Volume'')
      (\<lambda>volume. seq (on_client (zapi_clone_lun volume name new_name space_reserved 0 0 0))
      (\<lambda>_. seq (gets vserver)
      (\<lambda>vs. seq (on_client (zapi_get_lun_by_args vs
                              (''/vol/'' @ py_str volume @ ''/'' @ new_name)))
      (\<lambda>lun. case lun of
           [] \<Rightarrow> throw (VolumeBackendAPIException
                         (''No cloned LUN named '' @ new_name @ '' found on the filer''))
         | lun0 # _ \<Rightarrow>
             seq (create_lun_meta zapi_check_is_naelement lun0)
              (\<lambda>clone_meta. seq (subscript clone_meta ''Vserver'')
              (\<lambda>meta_vserver. seq (subscript clone_meta ''Path'')
              (\<lambda>meta_path. seq (base_add_lun_to_table
                   \<lparr>l_handle = py_str meta_vserver @ '':'' @ py_str meta_path,
                    l_name = new_name,
                    l_size = get_child_content lun0 ''size'',
                    l_metadata = clone_meta\<rparr>)
              (\<lambda>_. seq (gets vserver)
              (\<lambda>vs. seq (update_stale_vols
                           (Some (NetAppVolume_init volume (Some vs))) False)
              (\<lambda>_. ret ())))))))))))"

text \<open>\<open>_get_fc_target_wwpns(self, include_partner=True)\<close>\<close>

definition get_fc_target_wwpns ::
  "('b \<Rightarrow> (exc + 'w) \<times> 'b) \<Rightarrow> bool \<Rightarrow> (('b, 'r, 'f) driver, 'w) prog" where
  "get_fc_target_wwpns zapi_get_fc_target_wwpns include_partner =
     on_client zapi_get_fc_target_wwpns"

text \<open>
  \<open>delete_volume(self, volume)\<close>. A \<open>NetAppLun\<close> found in the table is true in a
  condition; the pool name read from its metadata is true when it is a non-empty string.
\<close>

definition delete_volume ::
  "((string \<rightharpoonup> string) \<Rightarrow> (('b, 'r, 'f) driver, unit) prog) \<Rightarrow>
   (string \<rightharpoonup> string) \<Rightarrow> (('b, 'r, 'f) driver, unit) prog" where
  "delete_volume base_delete_volume volume =
     seq (subscript volume ''name'')
      (\<lambda>name. seq (gets lun_table)
      (\<lambda>table. let lun = table name;
                   netapp_vol = (case lun of None \<Rightarrow> None
                                 | Some l \<Rightarrow> get_metadata_property l ''Volume'')
               in seq (base_delete_volume volume)
                   (\<lambda>_. if truthy netapp_vol then
                           seq (gets vserver)
                            (\<lambda>vs. seq (update_stale_vols
                                         (Some (NetAppVolume_init netapp_vol (Some vs))) False)
                            (\<lambda>_. ret ()))
                         else ret ())))"

section \<open>The stats aggregator\<close>

text \<open>
  The capacity figures are Python floats, and \<open>na_utils.round_down\<close> lives outside
  \<open>block_cmode.py\<close>. The float operations are therefore parameters: \<open>py_float\<close> is
  \<open>float(x)\<close> on a raw backend value, \<open>truediv\<close> is \<open>/\<close> on floats, \<open>units_Gi\<close>
  is the constant \<open>units.Gi\<close>, and \<open>round_down\<close> is \<open>na_utils.round_down\<close>. Each of
  the three operations may raise.
\<close>

record ('r, 'f) float_ops =
  py_float :: "'r \<Rightarrow> exc + 'f"
  truediv :: "'f \<Rightarrow> 'f \<Rightarrow> exc + 'f"
  units_Gi :: 'f
  round_down :: "'f \<Rightarrow> string \<Rightarrow> exc + 'f"

definition lift_res :: "exc + 'a \<Rightarrow> ('s, 'a) prog" where
  "lift_res r s = (r, s)"

text \<open>One entry of the list that \<open>_get_pool_stats\<close> returns.\<close>

record 'f pool =
  pool_name :: "string option"
  QoS_support :: bool
  reserved_percentage :: int
  total_capacity_gb :: 'f
  free_capacity_gb :: 'f
  netapp_raid_type :: "string option"
  netapp_disk_type :: "string option"
  netapp_mirrored :: string
  netapp_unmirrored :: string
  netapp_dedup :: string
  netapp_nodedup :: string
  netapp_compression :: string
  netapp_nocompression :: string
  netapp_thin_provisioned :: string
  netapp_thick_provisioned :: string

text \<open>\<open>self.ssc_vols[k]\<close>\<close>

definition ssc_subscript ::
  "string \<Rightarrow> (('b, 'r, 'f) driver, 'r NetAppVolume list) prog" where
  "ssc_subscript k =
     seq (gets ssc_vols)
      (\<lambda>ssc. case ssc of None \<Rightarrow> throw TypeError | Some d \<Rightarrow> subscript (map_of d) k)"

text \<open>The body of the loop over \<open>self.ssc_vols['all']\<close>.\<close>

definition pool_entry ::
  "('r, 'f) float_ops \<Rightarrow> 'r NetAppVolume \<Rightarrow> (('b, 'r, 'f) driver, 'f pool) prog" where
  "pool_entry fl vol =
     seq (subscript (space vol) ''size_total_bytes'')
      (\<lambda>raw_total. seq (lift_res (py_float fl raw_total))
      (\<lambda>total. seq (gets netapp_size_multiplier)
      (\<lambda>mult. seq (lift_res (truediv fl total mult))
      (\<lambda>total. seq (lift_res (truediv fl total (units_Gi fl)))
      (\<lambda>total. seq (lift_res (round_down fl total ''0.01''))
      (\<lambda>total_gb. seq (subscript (space vol) ''size_avl_bytes'')
      (\<lambda>raw_free. seq (lift_res (py_float fl raw_free))
      (\<lambda>free. seq (gets netapp_size_multiplier)
      (\<lambda>mult. seq (lift_res (truediv fl free mult))
      (\<lambda>free. seq (lift_res (truediv fl free (units_Gi fl)))
      (\<lambda>free. seq (lift_res (round_down fl free ''0.01''))
      (\<lambda>free_gb. seq (subscript (aggr vol) ''raid_type'')
      (\<lambda>raid_type. seq (subscript (aggr vol) ''disk_type'')
      (\<lambda>disk_type. seq (ssc_subscript ''mirrored'')
      (\<lambda>mirrored_set. seq (ssc_subscript ''dedup'')
      (\<lambda>dedup_set. seq (ssc_subscript ''compression'')
      (\<lambda>compression_set. seq (ssc_subscript ''thin'')
      (\<lambda>thin_set.
         let mirrored = vol_in vol mirrored_set;
             dedup = vol_in vol dedup_set;
             compression = vol_in vol compression_set;
             thin = vol_in vol thin_set
         in ret \<lparr>pool_name = id_name vol,
                 QoS_support = False,
                 reserved_percentage = 0,
                 total_capacity_gb = total_gb,
                 free_capacity_gb = free_gb,
                 netapp_raid_type = raid_type,
                 netapp_disk_type = disk_type,
                 netapp_mirrored = text_lower mirrored,
                 netapp_unmirrored = text_lower (\<not> mirrored),
                 netapp_dedup = text_lower dedup,
                 netapp_nodedup = text_lower (\<not> dedup),
                 netapp_compression = text_lower compression,
                 netapp_nocompression = text_lower (\<not> compression),
                 netapp_thin_provisioned = text_lower thin,
                 netapp_thick_provisioned = text_lower (\<not> thin)\<rparr>
      ))))))))))))))))))"

fun pool_stats_loop ::
  "('r, 'f) float_ops \<Rightarrow> 'r NetAppVolume list \<Rightarrow> 'f pool list \<Rightarrow>
   (('b, 'r, 'f) driver, 'f pool list) prog" where
  "pool_stats_loop fl [] pools = ret pools"
| "pool_stats_loop fl (vol # vols) pools =
     seq (pool_entry fl vol) (\<lambda>pool. pool_stats_loop fl vols (pools @ [pool]))"

text \<open>
  \<open>_get_pool_stats(self)\<close>. \<open>not self.ssc_vols\<close> holds for \<open>None\<close> and for an empty
  dict.
\<close>

definition get_pool_stats ::
  "('r, 'f) float_ops \<Rightarrow> (('b, 'r, 'f) driver, 'f pool list) prog" where
  "get_pool_stats fl =
     seq (gets ssc_vols)
      (\<lambda>ssc. case ssc of
           None \<Rightarrow> ret []
         | Some d \<Rightarrow> if d = [] then ret []
                     else seq (ssc_subscript ''all'') (\<lambda>all_vols. pool_stats_loop fl all_vols []))"

text \<open>
  The set that the catalog cache holds under the classification name \<open>k\<close>, as the
  properties below speak of it: empty while the cache is uninitialized or has no such key.
\<close>

definition catalog :: "('b, 'r, 'f) driver \<Rightarrow> string \<Rightarrow> 'r NetAppVolume list" where
  "catalog s k =
     (case ssc_vols s of None \<Rightarrow> []
      | Some d \<Rightarrow> (case map_of d k of None \<Rightarrow> [] | Some vs \<Rightarrow> vs))"

text \<open>
  To state which arguments \<open>_clone_lun\<close> hands to the backend clone primitive, a client
  is made to keep a record: \<open>recorded\<close> wraps a clone primitive so that every invocation
  appends its arguments to a list carried beside the client's own state, and
  \<open>clone_calls\<close> reads that list off the driver.
\<close>

type_synonym clone_call = "string option \<times> string \<times> string \<times> string \<times> int \<times> int \<times> int"

definition recorded ::
  "(string option \<Rightarrow> string \<Rightarrow> string \<Rightarrow> string \<Rightarrow> int \<Rightarrow> int \<Rightarrow> int \<Rightarrow>
      'b \<Rightarrow> (exc + unit) \<times> 'b) \<Rightarrow>
   string option \<Rightarrow> string \<Rightarrow> string \<Rightarrow> string \<Rightarrow> int \<Rightarrow> int \<Rightarrow> int \<Rightarrow>
      'b \<times> clone_call list \<Rightarrow> (exc + unit) \<times> ('b \<times> clone_call list)" where
  "recorded zapi_clone_lun volume name new_name space_reserved src_block dest_block block_count c =
     (case zapi_clone_lun volume name new_name space_reserved src_block dest_block block_count
             (fst c) of
        (r, b') \<Rightarrow>
          (r, (b', snd c @ [(volume, name, new_name, space_reserved,
                             src_block, dest_block, block_count)])))"

definition clone_calls :: "('b \<times> clone_call list, 'r, 'f) driver \<Rightarrow> clone_call list" where
  "clone_calls s = snd (zapi_client s)"

section \<open>Properties\<close>

lemmas prog_defs =
  ret_def throw_def seq_def gets_def modify_def subscript_def on_client_def lift_res_def

subsection \<open>Sequencing\<close>

lemma seq_frame:
  assumes "\<And>s. snd (m s) = s" and "\<And>x s. snd (f x s) = s"
  shows "snd (seq m f s) = s"
proof (cases "m s")
  case (Pair r s1)
  with assms(1) [of s] have "s1 = s" by simp
  with Pair assms(2) show ?thesis
    by (cases r) (simp_all add: seq_def)
qed

lemma seq_InrE:
  assumes "seq m f s = (Inr y, s')"
  obtains x s1 where "m s = (Inr x, s1)" and "f x s1 = (Inr y, s')"
  using assms by (auto simp: seq_def split: prod.splits sum.splits)

lemma gets_Inr: "gets f s = (Inr x, s') \<Longrightarrow> s' = s"
  by (simp add: gets_def)

lemma lift_res_Inr: "lift_res r s = (Inr x, s') \<Longrightarrow> s' = s"
  by (simp add: lift_res_def)

lemma subscript_Inr: "subscript d k s = (Inr x, s') \<Longrightarrow> s' = s"
  by (auto simp: prog_defs split: option.splits)

subsection \<open>The stats aggregator reads and never writes\<close>

lemma ssc_subscript_frame: "snd (ssc_subscript k s) = s"
  by (simp add: ssc_subscript_def prog_defs split: option.splits)

lemma pool_entry_frame: "snd (pool_entry fl vol s) = s"
  unfolding pool_entry_def
  by (intro seq_frame) (simp_all add: ssc_subscript_frame prog_defs Let_def split: option.splits)

lemma pool_stats_loop_frame: "snd (pool_stats_loop fl vols pools s) = s"
proof (induction vols arbitrary: pools s)
  case Nil
  show ?case by (simp add: ret_def)
next
  case (Cons vol vols)
  show ?case
    unfolding pool_stats_loop.simps
    by (rule seq_frame) (simp_all add: pool_entry_frame Cons.IH)
qed

lemma all_pools_frame:
  "snd (seq (ssc_subscript ''all'') (\<lambda>all_vols. pool_stats_loop fl all_vols []) s) = s"
  by (rule seq_frame) (simp_all add: ssc_subscript_frame pool_stats_loop_frame)

lemma ssc_subscript_Inr:
  "ssc_subscript k s = (Inr vs, s') \<Longrightarrow> s' = s \<and> catalog s k = vs"
  by (auto simp: ssc_subscript_def catalog_def prog_defs split: option.splits)

lemma pool_entry_Inr:
  assumes "pool_entry fl vol s = (Inr p, s')"
  shows "pool_name p = id_name vol
       \<and> netapp_mirrored p = text_lower (vol_in vol (catalog s ''mirrored''))
       \<and> netapp_unmirrored p = text_lower (\<not> vol_in vol (catalog s ''mirrored''))
       \<and> netapp_dedup p = text_lower (vol_in vol (catalog s ''dedup''))
       \<and> netapp_nodedup p = text_lower (\<not> vol_in vol (catalog s ''dedup''))
       \<and> netapp_compression p = text_lower (vol_in vol (catalog s ''compression''))
       \<and> netapp_nocompression p = text_lower (\<not> vol_in vol (catalog s ''compression''))
       \<and> netapp_thin_provisioned p = text_lower (vol_in vol (catalog s ''thin''))
       \<and> netapp_thick_provisioned p = text_lower (\<not> vol_in vol (catalog s ''thin''))"
  using assms unfolding pool_entry_def
  apply (elim seq_InrE)
  apply (auto dest!: ssc_subscript_Inr gets_Inr lift_res_Inr subscript_Inr simp: Let_def ret_def)
  done

lemma pool_stats_loop_Inr:
  assumes "pool_stats_loop fl vols acc s = (Inr pools, s')"
      and "\<And>vol p t. pool_entry fl vol s = (Inr p, t) \<Longrightarrow> P vol p"
  shows "\<exists>new. pools = acc @ new \<and> list_all2 P vols new"
  using assms(1)
proof (induction vols arbitrary: acc)
  case Nil
  then show ?case by (simp add: ret_def)
next
  case (Cons vol vols)
  from Cons.prems obtain p s1 where
    e: "pool_entry fl vol s = (Inr p, s1)" and
    r: "pool_stats_loop fl vols (acc @ [p]) s1 = (Inr pools, s')"
    by (auto elim: seq_InrE)
  from e pool_entry_frame [of fl vol s] have "s1 = s" by simp
  with r Cons.IH [of "acc @ [p]"] obtain new where
    "pools = (acc @ [p]) @ new" and "list_all2 P vols new"
    by blast
  with e assms(2) show ?case by auto
qed

subsection \<open>What reaches the record of clone invocations\<close>

lemma seq_calls:
  assumes "\<And>s. clone_calls (snd (m s)) = clone_calls s"
      and "\<And>x s. clone_calls (snd (f x s)) = clone_calls s"
  shows "clone_calls (snd (seq m f s)) = clone_calls s"
proof (cases "m s")
  case (Pair r s1)
  with assms(1) [of s] have "clone_calls s1 = clone_calls s" by simp
  with Pair assms(2) show ?thesis
    by (cases r) (simp_all add: seq_def)
qed

lemma seq_Inr_eq: "m s = (Inr x, s1) \<Longrightarrow> seq m f s = f x s1"
  by (simp add: seq_def)

lemma seq_Inl_eq: "m s = (Inl e, s1) \<Longrightarrow> seq m f s = (Inl e, s1)"
  by (simp add: seq_def)

lemma on_client_calls:
  assumes "\<And>c. snd (snd (call c)) = snd c"
  shows "clone_calls (snd (on_client call s)) = clone_calls s"
proof -
  obtain r c' where "call (zapi_client s) = (r, c')"
    by (cases "call (zapi_client s)") auto
  with assms [of "zapi_client s"] show ?thesis
    by (simp add: on_client_def clone_calls_def)
qed

lemma update_stale_vols_calls:
  "clone_calls (snd (update_stale_vols volume reset s)) = clone_calls s"
  by (simp add: update_stale_vols_def prog_defs clone_calls_def split: option.splits)

lemma create_lun_meta_calls:
  assumes "\<And>e c. snd (snd (zk e c)) = snd c"
  shows "clone_calls (snd (create_lun_meta zk lun s)) = clone_calls s"
  unfolding create_lun_meta_def
  by (rule seq_calls) (simp_all add: on_client_calls assms ret_def)

lemma subscript_calls: "clone_calls (snd (subscript d k s)) = clone_calls s"
  by (simp add: prog_defs split: option.splits)

lemma found_lun_calls:
  assumes zk: "\<And>e c. snd (snd (zk e c)) = snd c"
      and ba: "\<And>l t. clone_calls (snd (ba l t)) = clone_calls t"
  shows "clone_calls (snd ((case lun of
           [] \<Rightarrow> throw (VolumeBackendAPIException
                         (''No cloned LUN named '' @ new_name @ '' found on the filer''))
         | lun0 # _ \<Rightarrow>
             seq (create_lun_meta zk lun0)
              (\<lambda>clone_meta. seq (subscript clone_meta ''Vserver'')
              (\<lambda>meta_vserver. seq (subscript clone_meta ''Path'')
              (\<lambda>meta_path. seq (ba
                   \<lparr>l_handle = py_str meta_vserver @ '':'' @ py_str meta_path,
                    l_name = new_name,
                    l_size = get_child_content lun0 ''size'',
                    l_metadata = clone_meta\<rparr>)
              (\<lambda>_. seq (gets vserver)
              (\<lambda>vs. seq (update_stale_vols
                           (Some (NetAppVolume_init volume (Some vs))) False)
              (\<lambda>_. ret ()))))))) s)) = clone_calls s"
proof (cases lun)
  case Nil
  then show ?thesis by (simp add: throw_def)
next
  case (Cons lun0 rest)
  have "clone_calls (snd (
             seq (create_lun_meta zk lun0)
              (\<lambda>clone_meta. seq (subscript clone_meta ''Vserver'')
              (\<lambda>meta_vserver. seq (subscript clone_meta ''Path'')
              (\<lambda>meta_path. seq (ba
                   \<lparr>l_handle = py_str meta_vserver @ '':'' @ py_str meta_path,
                    l_name = new_name,
                    l_size = get_child_content lun0 ''size'',
                    l_metadata = clone_meta\<rparr>)
              (\<lambda>_. seq (gets vserver)
              (\<lambda>vs. seq (update_stale_vols
                           (Some (NetAppVolume_init volume (Some vs))) False)
              (\<lambda>_. ret ())))))) s)) = clone_calls s"
    by (intro seq_calls)
       (simp_all add: create_lun_meta_calls zk subscript_calls ba update_stale_vols_calls
          gets_def ret_def)
  with Cons show ?thesis by simp
qed

lemma after_clone_calls:
  assumes zg: "\<And>vs p c. snd (snd (zg vs p c)) = snd c"
      and zk: "\<And>e c. snd (snd (zk e c)) = snd c"
      and ba: "\<And>l t. clone_calls (snd (ba l t)) = clone_calls t"
  shows "clone_calls (snd (
      seq (gets vserver)
      (\<lambda>vs. seq (on_client (zg vs (''/vol/'' @ py_str volume @ ''/'' @ new_name)))
      (\<lambda>lun. case lun of
           [] \<Rightarrow> throw (VolumeBackendAPIException
                         (''No cloned LUN named '' @ new_name @ '' found on the filer''))
         | lun0 # _ \<Rightarrow>
             seq (create_lun_meta zk lun0)
              (\<lambda>clone_meta. seq (subscript clone_meta ''Vserver'')
              (\<lambda>meta_vserver. seq (subscript clone_meta ''Path'')
              (\<lambda>meta_path. seq (ba
                   \<lparr>l_handle = py_str meta_vserver @ '':'' @ py_str meta_path,
                    l_name = new_name,
                    l_size = get_child_content lun0 ''size'',
                    l_metadata = clone_meta\<rparr>)
              (\<lambda>_. seq (gets vserver)
              (\<lambda>vs. seq (update_stale_vols
                           (Some (NetAppVolume_init volume (Some vs))) False)
              (\<lambda>_. ret ())))))))) s)) = clone_calls s"
proof (rule seq_calls)
  show "clone_calls (snd (gets vserver t)) = clone_calls t"
    for t :: "('a \<times> clone_call list, 'b, 'c) driver"
    by (simp add: gets_def)
next
  fix vs and t :: "('a \<times> clone_call list, 'b, 'c) driver"
  show "clone_calls (snd (
      seq (on_client (zg vs (''/vol/'' @ py_str volume @ ''/'' @ new_name)))
      (\<lambda>lun. case lun of
           [] \<Rightarrow> throw (VolumeBackendAPIException
                         (''No cloned LUN named '' @ new_name @ '' found on the filer''))
         | lun0 # _ \<Rightarrow>
             seq (create_lun_meta zk lun0)
              (\<lambda>clone_meta. seq (subscript clone_meta ''Vserver'')
              (\<lambda>meta_vserver. seq (subscript clone_meta ''Path'')
              (\<lambda>meta_path. seq (ba
                   \<lparr>l_handle = py_str meta_vserver @ '':'' @ py_str meta_path,
                    l_name = new_name,
                    l_size = get_child_content lun0 ''size'',
                    l_metadata = clone_meta\<rparr>)
              (\<lambda>_. seq (gets vserver)
              (\<lambda>vs. seq (update_stale_vols
                           (Some (NetAppVolume_init volume (Some vs))) False)
              (\<lambda>_. ret ()))))))) t)) = clone_calls t"
    by (rule seq_calls) (simp add: on_client_calls zg, rule found_lun_calls [OF zk ba])
qed

subsection \<open>The claims\<close>

text \<open>
  C1. For every prior stale set \<open>S\<close> and pool \<open>v\<close>: with \<open>reset=True\<close> the method
  returns \<open>S \<union> {v}\<close> and leaves the stale set empty; with \<open>reset=False\<close> it returns
  \<open>None\<close> and leaves the stale set equal to \<open>S \<union> {v}\<close>; marking a pool that is
  already in \<open>S\<close> changes nothing.
\<close>

theorem update_stale_vols_mark_drain:
  "update_stale_vols (Some v) True s =
     (Inr (Some (stale_vols s \<union> {vol_key v})), s\<lparr>stale_vols := {}\<rparr>)
   \<and> update_stale_vols (Some v) False s =
     (Inr None, s\<lparr>stale_vols := stale_vols s \<union> {vol_key v}\<rparr>)
   \<and> (vol_key v \<in> stale_vols s \<longrightarrow> update_stale_vols (Some v) False s = (Inr None, s))"
  by (simp add: update_stale_vols_def prog_defs insert_absorb)

theorem update_stale_vols_mark_drain_witness:
  "vol_key (NetAppVolume_init (Some ''P1'') (Some ''vs1'') :: unit NetAppVolume)
     \<in> stale_vols (\<lparr>vserver = ''vs1'', netapp_size_multiplier = (), ssc_vols = None,
                    stale_vols = {(Some ''P1'', Some ''vs1'')}, lun_table = Map.empty,
                    zapi_client = ()\<rparr> :: (unit, unit, unit) driver)
   \<and> update_stale_vols (Some (NetAppVolume_init (Some ''P1'') (Some ''vs1'') :: unit NetAppVolume)) False
        \<lparr>vserver = ''vs1'', netapp_size_multiplier = (), ssc_vols = None,
         stale_vols = {(Some ''P1'', Some ''vs1'')}, lun_table = Map.empty,
         zapi_client = ()\<rparr>
     = (Inr None,
        \<lparr>vserver = ''vs1'', netapp_size_multiplier = (), ssc_vols = None,
         stale_vols = {(Some ''P1'', Some ''vs1'')}, lun_table = Map.empty,
         zapi_client = ()\<rparr>)"
proof -
  let ?v = "NetAppVolume_init (Some ''P1'') (Some ''vs1'') :: unit NetAppVolume"
  let ?s = "\<lparr>vserver = ''vs1'', netapp_size_multiplier = (), ssc_vols = None,
             stale_vols = {(Some ''P1'', Some ''vs1'')}, lun_table = Map.empty,
             zapi_client = ()\<rparr> :: (unit, unit, unit) driver"
  have h: "vol_key ?v \<in> stale_vols ?s"
    by (simp add: vol_key_def NetAppVolume_init_def)
  from update_stale_vols_mark_drain [of ?v ?s] h
  show ?thesis
    by blast
qed

text \<open>
  C2. When \<open>_get_lun_attr\<close> has produced the source metadata, the backend clone call
  returns and the lookup of the new path returns an empty list, \<open>_clone_lun\<close> raises
  \<open>VolumeBackendAPIException\<close> with the message naming \<open>new_name\<close>. The state it
  leaves is the one \<open>_get_lun_attr\<close> left, with only the client moved on: the LUN table
  and the stale set are untouched, and \<open>_add_lun_to_table\<close> is never run.
\<close>

theorem clone_lun_not_found:
  assumes "base_get_lun_attr name ''metadata'' s = (Inr (Some md), s1)"
      and "md ''Volume'' = Some volume"
      and "zapi_clone_lun volume name new_name space_reserved 0 0 0 (zapi_client s1) = (Inr (), b1)"
      and "zapi_get_lun_by_args (vserver s1) (''/vol/'' @ py_str volume @ ''/'' @ new_name) b1
             = (Inr [], b2)"
  shows "clone_lun base_get_lun_attr zapi_clone_lun zapi_get_lun_by_args zapi_check_is_naelement
           base_add_lun_to_table name new_name space_reserved src_block dest_block block_count s
         = (Inl (VolumeBackendAPIException
                   (''No cloned LUN named '' @ new_name @ '' found on the filer'')),
            s1\<lparr>zapi_client := b2\<rparr>)"
  using assms by (simp add: clone_lun_def prog_defs)

theorem clone_lun_not_found_witness:
  "clone_lun
     (\<lambda>n a s. (Inr (case lun_table s n of None \<Rightarrow> None | Some l \<Rightarrow> Some (l_metadata l)), s))
     (\<lambda>vol n m r sb db bc log. (Inr (), log @ [(sb, db, bc)]))
     (\<lambda>vs path log. (Inr [], log))
     (\<lambda>e log. (Inr (), log))
     (\<lambda>l. modify (\<lambda>s. s\<lparr>lun_table := (lun_table s)(l_name l \<mapsto> l)\<rparr>))
     ''L1'' ''L2'' ''true'' 0 0 0
     (\<lparr>vserver = ''vs1'', netapp_size_multiplier = (), ssc_vols = None, stale_vols = {},
       lun_table = [''L1'' \<mapsto> \<lparr>l_handle = ''vs1:/vol/P1/L1'', l_name = ''L1'',
                                l_size = Some ''1024'',
                                l_metadata = [''Volume'' \<mapsto> Some ''P1'']\<rparr>],
       zapi_client = []\<rparr> :: ((int \<times> int \<times> int) list, unit, unit) driver)
   = (Inl (VolumeBackendAPIException ''No cloned LUN named L2 found on the filer''),
      \<lparr>vserver = ''vs1'', netapp_size_multiplier = (), ssc_vols = None, stale_vols = {},
       lun_table = [''L1'' \<mapsto> \<lparr>l_handle = ''vs1:/vol/P1/L1'', l_name = ''L1'',
                                l_size = Some ''1024'',
                                l_metadata = [''Volume'' \<mapsto> Some ''P1'']\<rparr>],
       zapi_client = [(0, 0, 0)]\<rparr>)"
proof -
  let ?lun = "\<lparr>l_handle = ''vs1:/vol/P1/L1'', l_name = ''L1'', l_size = Some ''1024'',
               l_metadata = [''Volume'' \<mapsto> Some ''P1'']\<rparr>"
  let ?s = "\<lparr>vserver = ''vs1'', netapp_size_multiplier = (), ssc_vols = None, stale_vols = {},
             lun_table = [''L1'' \<mapsto> ?lun], zapi_client = []\<rparr>
             :: ((int \<times> int \<times> int) list, unit, unit) driver"
  let ?attr = "\<lambda>(n :: string) (a :: string) (s :: ((int \<times> int \<times> int) list, unit, unit) driver).
                 (Inr (case lun_table s n of None \<Rightarrow> None | Some l \<Rightarrow> Some (l_metadata l))
                    :: exc + (string \<rightharpoonup> string option) option, s)"
  let ?clone = "\<lambda>(vol :: string option) (n :: string) (m :: string) (r :: string)
                  (sb :: int) (db :: int) (bc :: int) (log :: (int \<times> int \<times> int) list).
                  (Inr () :: exc + unit, log @ [(sb, db, bc)])"
  let ?find = "\<lambda>(vs :: string) (path :: string) (log :: (int \<times> int \<times> int) list).
                 (Inr [] :: exc + NaElement list, log)"
  have h1: "?attr ''L1'' ''metadata'' ?s = (Inr (Some [''Volume'' \<mapsto> Some ''P1'']), ?s)"
    by simp
  have h2: "[''Volume'' \<mapsto> Some ''P1''] ''Volume'' = Some (Some ''P1'')"
    by simp
  have h3: "?clone (Some ''P1'') ''L1'' ''L2'' ''true'' 0 0 0 (zapi_client ?s)
              = (Inr (), [(0, 0, 0)])"
    by simp
  have h4: "?find (vserver ?s) (''/vol/'' @ py_str (Some ''P1'') @ ''/'' @ ''L2'') [(0, 0, 0)]
              = (Inr [], [(0, 0, 0)])"
    by simp
  from clone_lun_not_found
         [where base_get_lun_attr = ?attr and zapi_clone_lun = ?clone
            and zapi_get_lun_by_args = ?find and name = "''L1''" and new_name = "''L2''"
            and space_reserved = "''true''" and s = ?s and ?s1.0 = ?s
            and md = "[''Volume'' \<mapsto> Some ''P1'']" and volume = "Some ''P1''"
            and ?b1.0 = "[(0, 0, 0)]" and ?b2.0 = "[(0, 0, 0)]", OF h1 h2 h3 h4]
  show ?thesis by simp
qed

text \<open>
  C3. Every entry that \<open>_get_pool_stats\<close> returns stands for the pool at the same
  position of \<open>ssc_vols['all']\<close>. On each of the four axes its positive tag is the text
  of the pool's membership in the classification set and its negative tag is the text of
  the negation of that same membership.
\<close>

theorem pool_stats_tags_paired:
  assumes "get_pool_stats fl s = (Inr pools, s')"
  shows "list_all2 (\<lambda>vol p.
           pool_name p = id_name vol
         \<and> netapp_mirrored p = text_lower (vol_in vol (catalog s ''mirrored''))
         \<and> netapp_unmirrored p = text_lower (\<not> vol_in vol (catalog s ''mirrored''))
         \<and> netapp_dedup p = text_lower (vol_in vol (catalog s ''dedup''))
         \<and> netapp_nodedup p = text_lower (\<not> vol_in vol (catalog s ''dedup''))
         \<and> netapp_compression p = text_lower (vol_in vol (catalog s ''compression''))
         \<and> netapp_nocompression p = text_lower (\<not> vol_in vol (catalog s ''compression''))
         \<and> netapp_thin_provisioned p = text_lower (vol_in vol (catalog s ''thin''))
         \<and> netapp_thick_provisioned p = text_lower (\<not> vol_in vol (catalog s ''thin'')))
         (catalog s ''all'') pools"
proof (cases "ssc_vols s")
  case None
  with assms show ?thesis
    by (simp add: get_pool_stats_def catalog_def prog_defs)
next
  case (Some d)
  show ?thesis
  proof (cases "d = []")
    case True
    with Some assms show ?thesis
      by (simp add: get_pool_stats_def catalog_def prog_defs)
  next
    case False
    with Some assms have
      "seq (ssc_subscript ''all'') (\<lambda>all_vols. pool_stats_loop fl all_vols []) s
         = (Inr pools, s')"
      by (simp add: get_pool_stats_def seq_def gets_def)
    then obtain all_vols s1 where
      a: "ssc_subscript ''all'' s = (Inr all_vols, s1)" and
      l: "pool_stats_loop fl all_vols [] s1 = (Inr pools, s')"
      by (rule seq_InrE)
    from a have "s1 = s" and c: "catalog s ''all'' = all_vols"
      by (simp_all add: ssc_subscript_Inr)
    with l pool_stats_loop_Inr [of fl all_vols "[]" s pools s', OF _ pool_entry_Inr]
    show ?thesis by auto
  qed
qed

text \<open>
  An instance: a catalog of one pool that is mirrored and thin, neither deduplicated nor
  compressed. Integers stand in for the floats, on which the tags do not depend.
\<close>

theorem pool_stats_tags_paired_witness:
  "list_all2 (\<lambda>vol p.
       pool_name p = id_name vol
     \<and> netapp_mirrored p = ''true'' \<and> netapp_unmirrored p = ''false''
     \<and> netapp_dedup p = ''false'' \<and> netapp_nodedup p = ''true''
     \<and> netapp_compression p = ''false'' \<and> netapp_nocompression p = ''true''
     \<and> netapp_thin_provisioned p = ''true'' \<and> netapp_thick_provisioned p = ''false'')
     [\<lparr>id_name = Some ''P1'', id_vserver = Some ''vs1'',
       space = [''size_total_bytes'' \<mapsto> 10737418240, ''size_avl_bytes'' \<mapsto> 1073741824],
       aggr = [''raid_type'' \<mapsto> Some ''raid_dp'', ''disk_type'' \<mapsto> Some ''SSD'']\<rparr>
      :: int NetAppVolume]
     [\<lparr>pool_name = Some ''P1'', QoS_support = False, reserved_percentage = 0,
       total_capacity_gb = 10 :: int, free_capacity_gb = 1,
       netapp_raid_type = Some ''raid_dp'', netapp_disk_type = Some ''SSD'',
       netapp_mirrored = ''true'', netapp_unmirrored = ''false'',
       netapp_dedup = ''false'', netapp_nodedup = ''true'',
       netapp_compression = ''false'', netapp_nocompression = ''true'',
       netapp_thin_provisioned = ''true'', netapp_thick_provisioned = ''false''\<rparr>]"
proof -
  let ?fl = "\<lparr>py_float = Inr, truediv = (\<lambda>a b. if b = 0 then Inl (Raised ''ZeroDivisionError'')
                                              else Inr (a div b)),
             units_Gi = 1073741824, round_down = (\<lambda>x p. Inr x)\<rparr> :: (int, int) float_ops"
  let ?v = "\<lparr>id_name = Some ''P1'', id_vserver = Some ''vs1'',
             space = [''size_total_bytes'' \<mapsto> 10737418240, ''size_avl_bytes'' \<mapsto> 1073741824],
             aggr = [''raid_type'' \<mapsto> Some ''raid_dp'', ''disk_type'' \<mapsto> Some ''SSD'']\<rparr>
            :: int NetAppVolume"
  let ?s = "\<lparr>vserver = ''vs1'', netapp_size_multiplier = 1,
             ssc_vols = Some [(''all'', [?v]), (''mirrored'', [?v]), (''dedup'', []),
                              (''compression'', []), (''thin'', [?v])],
             stale_vols = {}, lun_table = Map.empty, zapi_client = ()\<rparr>
            :: (unit, int, int) driver"
  let ?p = "\<lparr>pool_name = Some ''P1'', QoS_support = False, reserved_percentage = 0,
             total_capacity_gb = 10 :: int, free_capacity_gb = 1,
             netapp_raid_type = Some ''raid_dp'', netapp_disk_type = Some ''SSD'',
             netapp_mirrored = ''true'', netapp_unmirrored = ''false'',
             netapp_dedup = ''false'', netapp_nodedup = ''true'',
             netapp_compression = ''false'', netapp_nocompression = ''true'',
             netapp_thin_provisioned = ''true'', netapp_thick_provisioned = ''false''\<rparr>"
  have run: "get_pool_stats ?fl ?s = (Inr [?p], ?s)"
    by (simp add: get_pool_stats_def pool_entry_def ssc_subscript_def prog_defs vol_in_def
          vol_key_def text_lower_def)
  from pool_stats_tags_paired [OF run]
  show ?thesis
    by (simp add: catalog_def vol_in_def vol_key_def text_lower_def)
qed

text \<open>
  C5. When \<open>ssc_vols\<close> is \<open>None\<close>, an empty dict, or a dict whose \<open>'all'\<close> set is
  empty, \<open>_get_pool_stats\<close> returns the empty list and raises nothing.
\<close>

theorem get_pool_stats_cold:
  assumes "ssc_vols s = None \<or> ssc_vols s = Some []
           \<or> (\<exists>d. ssc_vols s = Some d \<and> map_of d ''all'' = Some [])"
  shows "get_pool_stats fl s = (Inr [], s)"
  using assms
  by (auto simp: get_pool_stats_def ssc_subscript_def prog_defs)

theorem get_pool_stats_cold_witness:
  "get_pool_stats
     \<lparr>py_float = Inr, truediv = (\<lambda>a b. if b = 0 then Inl (Raised ''ZeroDivisionError'')
                                       else Inr (a div b)),
      units_Gi = 1073741824, round_down = (\<lambda>x p. Inr x)\<rparr>
     (\<lparr>vserver = ''vs1'', netapp_size_multiplier = 1, ssc_vols = None, stale_vols = {},
       lun_table = Map.empty, zapi_client = ()\<rparr> :: (unit, int, int) driver)
   = (Inr [], \<lparr>vserver = ''vs1'', netapp_size_multiplier = 1, ssc_vols = None, stale_vols = {},
               lun_table = Map.empty, zapi_client = ()\<rparr>)
   \<and> get_pool_stats
     \<lparr>py_float = Inr, truediv = (\<lambda>a b. if b = 0 then Inl (Raised ''ZeroDivisionError'')
                                       else Inr (a div b)),
      units_Gi = 1073741824, round_down = (\<lambda>x p. Inr x)\<rparr>
     (\<lparr>vserver = ''vs1'', netapp_size_multiplier = 1, ssc_vols = Some [], stale_vols = {},
       lun_table = Map.empty, zapi_client = ()\<rparr> :: (unit, int, int) driver)
   = (Inr [], \<lparr>vserver = ''vs1'', netapp_size_multiplier = 1, ssc_vols = Some [],
               stale_vols = {}, lun_table = Map.empty, zapi_client = ()\<rparr>)
   \<and> get_pool_stats
     \<lparr>py_float = Inr, truediv = (\<lambda>a b. if b = 0 then Inl (Raised ''ZeroDivisionError'')
                                       else Inr (a div b)),
      units_Gi = 1073741824, round_down = (\<lambda>x p. Inr x)\<rparr>
     (\<lparr>vserver = ''vs1'', netapp_size_multiplier = 1, ssc_vols = Some [(''all'', [])],
       stale_vols = {}, lun_table = Map.empty, zapi_client = ()\<rparr> :: (unit, int, int) driver)
   = (Inr [], \<lparr>vserver = ''vs1'', netapp_size_multiplier = 1, ssc_vols = Some [(''all'', [])],
               stale_vols = {}, lun_table = Map.empty, zapi_client = ()\<rparr>)"
proof -
  let ?fl = "\<lparr>py_float = Inr, truediv = (\<lambda>a b. if b = 0 then Inl (Raised ''ZeroDivisionError'')
                                              else Inr (a div b)),
             units_Gi = 1073741824, round_down = (\<lambda>x p. Inr x)\<rparr> :: (int, int) float_ops"
  let ?s = "\<lambda>c. \<lparr>vserver = ''vs1'', netapp_size_multiplier = 1, ssc_vols = c, stale_vols = {},
                 lun_table = Map.empty, zapi_client = ()\<rparr> :: (unit, int, int) driver"
  have a: "ssc_vols (?s None) = None \<or> ssc_vols (?s None) = Some []
           \<or> (\<exists>d. ssc_vols (?s None) = Some d \<and> map_of d ''all'' = Some [])"
    by simp
  have b: "ssc_vols (?s (Some [])) = None \<or> ssc_vols (?s (Some [])) = Some []
           \<or> (\<exists>d. ssc_vols (?s (Some [])) = Some d \<and> map_of d ''all'' = Some [])"
    by simp
  have c: "ssc_vols (?s (Some [(''all'', [])])) = None \<or> ssc_vols (?s (Some [(''all'', [])])) = Some []
           \<or> (\<exists>d. ssc_vols (?s (Some [(''all'', [])])) = Some d \<and> map_of d ''all'' = Some [])"
    by simp
  from get_pool_stats_cold [OF a, of ?fl] get_pool_stats_cold [OF b, of ?fl]
       get_pool_stats_cold [OF c, of ?fl]
  show ?thesis by simp
qed

text \<open>
  C6. \<open>delete_volume\<close> on a volume named \<open>name\<close>. If the LUN table tracks \<open>name\<close>
  and its metadata records a pool, then once the inherited deletion has returned that pool
  (under the driver's vserver) is added to the stale set the deletion left. If the table
  has no entry for \<open>name\<close>, the outcome and the state are exactly those of the inherited
  deletion: no error and no mark are added.
\<close>

theorem delete_volume_marks_tracked_pool:
  assumes "volume ''name'' = Some name"
  shows "(lun_table s name = Some lun \<and> get_metadata_property lun ''Volume'' = Some pool
            \<and> pool \<noteq> [] \<and> base_delete_volume volume s = (Inr (), s1)
          \<longrightarrow> delete_volume base_delete_volume volume s
                = (Inr (), s1\<lparr>stale_vols :=
                                insert (Some pool, Some (vserver s1)) (stale_vols s1)\<rparr>))
       \<and> (lun_table s name = None
          \<longrightarrow> delete_volume base_delete_volume volume s = base_delete_volume volume s)"
  using assms
  by (auto simp: delete_volume_def update_stale_vols_def prog_defs vol_key_def
        NetAppVolume_init_def truthy_def Let_def split: prod.splits sum.splits)

theorem delete_volume_marks_tracked_pool_witness:
  "delete_volume (\<lambda>v s. (Inr (), s\<lparr>lun_table := Map.empty\<rparr>)) [''name'' \<mapsto> ''L1'']
     (\<lparr>vserver = ''vs1'', netapp_size_multiplier = (), ssc_vols = None, stale_vols = {},
       lun_table = [''L1'' \<mapsto> \<lparr>l_handle = ''vs1:/vol/P1/L1'', l_name = ''L1'',
                                l_size = Some ''1024'',
                                l_metadata = [''Volume'' \<mapsto> Some ''P1'']\<rparr>],
       zapi_client = ()\<rparr> :: (unit, unit, unit) driver)
   = (Inr (), \<lparr>vserver = ''vs1'', netapp_size_multiplier = (), ssc_vols = None,
               stale_vols = {(Some ''P1'', Some ''vs1'')}, lun_table = Map.empty,
               zapi_client = ()\<rparr>)
   \<and> delete_volume (\<lambda>v s. (Inr (), s\<lparr>lun_table := Map.empty\<rparr>)) [''name'' \<mapsto> ''L2'']
     (\<lparr>vserver = ''vs1'', netapp_size_multiplier = (), ssc_vols = None, stale_vols = {},
       lun_table = [''L1'' \<mapsto> \<lparr>l_handle = ''vs1:/vol/P1/L1'', l_name = ''L1'',
                                l_size = Some ''1024'',
                                l_metadata = [''Volume'' \<mapsto> Some ''P1'']\<rparr>],
       zapi_client = ()\<rparr> :: (unit, unit, unit) driver)
   = (Inr (), \<lparr>vserver = ''vs1'', netapp_size_multiplier = (), ssc_vols = None,
               stale_vols = {}, lun_table = Map.empty, zapi_client = ()\<rparr>)"
proof -
  let ?base = "\<lambda>(v :: string \<rightharpoonup> string) (s :: (unit, unit, unit) driver).
                 (Inr () :: exc + unit, s\<lparr>lun_table := Map.empty\<rparr>)"
  let ?lun = "\<lparr>l_handle = ''vs1:/vol/P1/L1'', l_name = ''L1'', l_size = Some ''1024'',
               l_metadata = [''Volume'' \<mapsto> Some ''P1'']\<rparr>"
  let ?s = "\<lparr>vserver = ''vs1'', netapp_size_multiplier = (), ssc_vols = None, stale_vols = {},
             lun_table = [''L1'' \<mapsto> ?lun], zapi_client = ()\<rparr> :: (unit, unit, unit) driver"
  have n1: "[''name'' \<mapsto> ''L1''] ''name'' = Some ''L1''" by simp
  have n2: "[''name'' \<mapsto> ''L2''] ''name'' = Some ''L2''" by simp
  have t: "lun_table ?s ''L1'' = Some ?lun \<and> get_metadata_property ?lun ''Volume'' = Some ''P1''
           \<and> ''P1'' \<noteq> [] \<and> ?base [''name'' \<mapsto> ''L1''] ?s = (Inr (), ?s\<lparr>lun_table := Map.empty\<rparr>)"
    by (simp add: get_metadata_property_def)
  have u: "lun_table ?s ''L2'' = None" by simp
  from delete_volume_marks_tracked_pool
         [where volume = "[''name'' \<mapsto> ''L1'']" and name = "''L1''" and s = ?s and lun = ?lun
            and pool = "''P1''" and base_delete_volume = ?base
            and ?s1.0 = "?s\<lparr>lun_table := Map.empty\<rparr>", OF n1] t
       delete_volume_marks_tracked_pool
         [where volume = "[''name'' \<mapsto> ''L2'']" and name = "''L2''" and s = ?s and lun = ?lun
            and pool = "''P1''" and base_delete_volume = ?base
            and ?s1.0 = "?s\<lparr>lun_table := Map.empty\<rparr>", OF n2] u
  show ?thesis by simp
qed

text \<open>
  C7. \<open>_create_lun\<close> marks the target pool only after the backend \<open>create_lun\<close> has
  returned. If the backend call raises, the same exception comes out and the stale set is
  the one before the call.
\<close>

theorem create_lun_marks_after_success:
  "(zapi_create_lun volume_name lun_name sz md qos (zapi_client s) = (Inr (), b') \<longrightarrow>
      create_lun zapi_create_lun volume_name lun_name sz md qos s
        = (Inr (), s\<lparr>zapi_client := b',
                      stale_vols := insert (Some volume_name, Some (vserver s)) (stale_vols s)\<rparr>))
   \<and> (zapi_create_lun volume_name lun_name sz md qos (zapi_client s) = (Inl e, b') \<longrightarrow>
      create_lun zapi_create_lun volume_name lun_name sz md qos s
        = (Inl e, s\<lparr>zapi_client := b'\<rparr>))"
  by (simp add: create_lun_def update_stale_vols_def prog_defs vol_key_def NetAppVolume_init_def)

theorem create_lun_marks_after_success_witness:
  "create_lun (\<lambda>vol lun sz md qos n. (Inr (), Suc n)) ''P1'' ''L1'' ''1024'' () ()
     (\<lparr>vserver = ''vs1'', netapp_size_multiplier = (), ssc_vols = None, stale_vols = {},
       lun_table = Map.empty, zapi_client = 0\<rparr> :: (nat, unit, unit) driver)
   = (Inr (), \<lparr>vserver = ''vs1'', netapp_size_multiplier = (), ssc_vols = None,
               stale_vols = {(Some ''P1'', Some ''vs1'')}, lun_table = Map.empty,
               zapi_client = Suc 0\<rparr>)
   \<and> create_lun (\<lambda>vol lun sz md qos n. (Inl (Raised ''NaApiError''), Suc n))
       ''P1'' ''L1'' ''1024'' () ()
     (\<lparr>vserver = ''vs1'', netapp_size_multiplier = (), ssc_vols = None, stale_vols = {},
       lun_table = Map.empty, zapi_client = 0\<rparr> :: (nat, unit, unit) driver)
   = (Inl (Raised ''NaApiError''),
      \<lparr>vserver = ''vs1'', netapp_size_multiplier = (), ssc_vols = None, stale_vols = {},
       lun_table = Map.empty, zapi_client = Suc 0\<rparr>)"
proof -
  let ?ok = "\<lambda>(vol :: string) (lun :: string) (sz :: string) (md :: unit) (qos :: unit) (n :: nat).
               (Inr () :: exc + unit, Suc n)"
  let ?bad = "\<lambda>(vol :: string) (lun :: string) (sz :: string) (md :: unit) (qos :: unit) (n :: nat).
               (Inl (Raised ''NaApiError'') :: exc + unit, Suc n)"
  let ?s = "\<lparr>vserver = ''vs1'', netapp_size_multiplier = (), ssc_vols = None, stale_vols = {},
             lun_table = Map.empty, zapi_client = 0\<rparr> :: (nat, unit, unit) driver"
  from create_lun_marks_after_success
         [of ?ok "''P1''" "''L1''" "''1024''" "()" "()" ?s "Suc 0" "Raised ''NaApiError''"]
       create_lun_marks_after_success
         [of ?bad "''P1''" "''L1''" "''1024''" "()" "()" ?s "Suc 0" "Raised ''NaApiError''"]
  show ?thesis by simp
qed

text \<open>
  C8. Whatever \<open>src_block\<close>, \<open>dest_block\<close> and \<open>block_count\<close> the caller gives,
  \<open>_clone_lun\<close> invokes the backend clone primitive with the block range \<open>0, 0, 0\<close>.
  With a recording client whose other calls leave the record alone, the record grows by
  exactly one invocation, for the pool named in the source metadata and with zeros as the
  block range, whenever \<open>_get_lun_attr\<close> yields metadata that names a pool; when it
  raises, yields \<open>None\<close> or yields metadata without a pool, \<open>_clone_lun\<close> raises
  before the call and the record does not grow. Further, for any client the outcome and
  the state are the same as with zeros for the three arguments, and two clone primitives
  that agree at \<open>0, 0, 0\<close> cannot be told apart.
\<close>

theorem clone_lun_invokes_zero_range:
  "((\<forall>n a t. clone_calls (snd (g n a t)) = clone_calls t)
      \<and> (\<forall>vs p c. snd (snd (zg vs p c)) = snd c)
      \<and> (\<forall>e c. snd (snd (zk e c)) = snd c)
      \<and> (\<forall>l t. clone_calls (snd (ba l t)) = clone_calls t)
    \<longrightarrow> clone_calls (snd (clone_lun g (recorded zc) zg zk ba name new_name sr
                              src_block dest_block block_count s))
        = clone_calls s @
          (case fst (g name ''metadata'' s) of
             Inl e \<Rightarrow> []
           | Inr None \<Rightarrow> []
           | Inr (Some md) \<Rightarrow>
               (case md ''Volume'' of
                  None \<Rightarrow> []
                | Some volume \<Rightarrow> [(volume, name, new_name, sr, 0, 0, 0)])))
   \<and> clone_lun g' zp zg' zk' ba' name new_name sr src_block dest_block block_count s'
       = clone_lun g' zp zg' zk' ba' name new_name sr 0 0 0 s'
   \<and> ((\<forall>v n m r b. zp' v n m r 0 0 0 b = zp v n m r 0 0 0 b) \<longrightarrow>
        clone_lun g' zp' zg' zk' ba' name new_name sr src_block dest_block block_count s'
          = clone_lun g' zp zg' zk' ba' name new_name sr src_block dest_block block_count s')"
proof (intro conjI impI)
  assume "\<forall>v n m r b. zp' v n m r 0 0 0 b = zp v n m r 0 0 0 b"
  then have "zp' v n m r 0 0 0 = zp v n m r 0 0 0" for v n m r
    by (intro ext) simp
  then show "clone_lun g' zp' zg' zk' ba' name new_name sr src_block dest_block block_count s'
          = clone_lun g' zp zg' zk' ba' name new_name sr src_block dest_block block_count s'"
    by (simp add: clone_lun_def)
next
  show "clone_lun g' zp zg' zk' ba' name new_name sr src_block dest_block block_count s'
          = clone_lun g' zp zg' zk' ba' name new_name sr 0 0 0 s'"
    by (simp add: clone_lun_def)
next
  assume a: "(\<forall>n a t. clone_calls (snd (g n a t)) = clone_calls t)
      \<and> (\<forall>vs p c. snd (snd (zg vs p c)) = snd c)
      \<and> (\<forall>e c. snd (snd (zk e c)) = snd c)
      \<and> (\<forall>l t. clone_calls (snd (ba l t)) = clone_calls t)"
  obtain r s1 where g: "g name ''metadata'' s = (r, s1)"
    by (cases "g name ''metadata'' s")
  with a have s1: "clone_calls s1 = clone_calls s"
    by (metis snd_conv)
  have rest: "clone_calls (snd (
      seq (gets vserver)
      (\<lambda>vs. seq (on_client (zg vs (''/vol/'' @ py_str volume @ ''/'' @ new_name)))
      (\<lambda>lun. case lun of
           [] \<Rightarrow> throw (VolumeBackendAPIException
                         (''No cloned LUN named '' @ new_name @ '' found on the filer''))
         | lun0 # _ \<Rightarrow>
             seq (create_lun_meta zk lun0)
              (\<lambda>clone_meta. seq (subscript clone_meta ''Vserver'')
              (\<lambda>meta_vserver. seq (subscript clone_meta ''Path'')
              (\<lambda>meta_path. seq (ba
                   \<lparr>l_handle = py_str meta_vserver @ '':'' @ py_str meta_path,
                    l_name = new_name,
                    l_size = get_child_content lun0 ''size'',
                    l_metadata = clone_meta\<rparr>)
              (\<lambda>_. seq (gets vserver)
              (\<lambda>vs. seq (update_stale_vols
                           (Some (NetAppVolume_init volume (Some vs))) False)
              (\<lambda>_. ret ())))))))) t)) = clone_calls t" for volume t
  proof (rule after_clone_calls)
    show "snd (snd (zg vs p c)) = snd c" for vs p c using a by blast
    show "snd (snd (zk e c)) = snd c" for e c using a by blast
    show "clone_calls (snd (ba l u)) = clone_calls u" for l u using a by blast
  qed
  show "clone_calls (snd (clone_lun g (recorded zc) zg zk ba name new_name sr
                              src_block dest_block block_count s))
        = clone_calls s @
          (case fst (g name ''metadata'' s) of
             Inl e \<Rightarrow> []
           | Inr None \<Rightarrow> []
           | Inr (Some md) \<Rightarrow>
               (case md ''Volume'' of
                  None \<Rightarrow> []
                | Some volume \<Rightarrow> [(volume, name, new_name, sr, 0, 0, 0)]))"
  proof (cases r)
    case (Inl e)
    with g s1 show ?thesis
      by (simp add: clone_lun_def seq_def)
  next
    case (Inr metadata)
    show ?thesis
    proof (cases metadata)
      case None
      with Inr g s1 show ?thesis
        by (simp add: clone_lun_def seq_def throw_def)
    next
      case (Some md)
      show ?thesis
      proof (cases "md ''Volume''")
        case None
        with Some Inr g s1 show ?thesis
          by (simp add: clone_lun_def seq_def throw_def subscript_def)
      next
        case vol: (Some volume)
        obtain q b1 where z: "zc volume name new_name sr 0 0 0 (fst (zapi_client s1)) = (q, b1)"
          by (cases "zc volume name new_name sr 0 0 0 (fst (zapi_client s1))")
        let ?s2 = "s1\<lparr>zapi_client :=
                       (b1, clone_calls s1 @ [(volume, name, new_name, sr, 0, 0, 0)])\<rparr>"
        have oc: "on_client (recorded zc volume name new_name sr 0 0 0) s1 = (q, ?s2)"
          using z by (simp add: on_client_def recorded_def clone_calls_def)
        have s2: "clone_calls ?s2 = clone_calls s @ [(volume, name, new_name, sr, 0, 0, 0)]"
          using s1 by (simp add: clone_calls_def)
        have sub: "subscript md ''Volume'' s1 = (Inr volume, s1)"
          using vol by (simp add: subscript_def ret_def)
        have g': "g name ''metadata'' s = (Inr (Some md), s1)"
          using g Some \<open>r = Inr metadata\<close> by simp
        show ?thesis
        proof (cases q)
          case (Inl e)
          with oc have oc': "on_client (recorded zc volume name new_name sr 0 0 0) s1
                               = (Inl e, ?s2)"
            by simp
          have "clone_lun g (recorded zc) zg zk ba name new_name sr
                  src_block dest_block block_count s = (Inl e, ?s2)"
            unfolding clone_lun_def
            by (simp only: seq_Inr_eq [where m = "g name ''metadata''" and s = s, OF g'] option.case seq_Inr_eq [where m = "subscript md ''Volume''" and s = s1, OF sub]
                  seq_Inl_eq [where m = "on_client (recorded zc volume name new_name sr 0 0 0)" and s = s1, OF oc'])
          with s2 g' vol show ?thesis
            by simp
        next
          case (Inr u)
          with oc have oc': "on_client (recorded zc volume name new_name sr 0 0 0) s1
                               = (Inr u, ?s2)"
            by simp
          have "clone_calls (snd (clone_lun g (recorded zc) zg zk ba name new_name sr
                  src_block dest_block block_count s)) = clone_calls ?s2"
            unfolding clone_lun_def
            by (simp only: seq_Inr_eq [where m = "g name ''metadata''" and s = s, OF g'] option.case seq_Inr_eq [where m = "subscript md ''Volume''" and s = s1, OF sub]
                  seq_Inr_eq [where m = "on_client (recorded zc volume name new_name sr 0 0 0)" and s = s1, OF oc'] rest)
          with s2 g' vol show ?thesis
            by simp
        qed
      qed
    qed
  qed
qed

text \<open>
  An instance with the caller's block range \<open>5, 6, 7\<close>: cloning the tracked \<open>L1\<close>
  records the one invocation \<open>(P1, L1, L2, true, 0, 0, 0)\<close>; cloning the untracked
  \<open>L9\<close> records none; a client that logs the range it is given and one that logs zeros
  give the same run.
\<close>

theorem clone_lun_invokes_zero_range_witness:
  "clone_calls (snd (clone_lun
     (\<lambda>n a s. (Inr (case lun_table s n of None \<Rightarrow> None | Some l \<Rightarrow> Some (l_metadata l)), s))
     (recorded (\<lambda>vol n m r sb db bc b. (Inr (), b)))
     (\<lambda>vs path c. (Inr [[''vserver'' \<mapsto> ''vs1'', ''volume'' \<mapsto> ''P1'',
                          ''path'' \<mapsto> ''/vol/P1/L2'', ''size'' \<mapsto> ''1024'']], c))
     (\<lambda>e c. (Inr (), c))
     (\<lambda>l. modify (\<lambda>s. s\<lparr>lun_table := (lun_table s)(l_name l \<mapsto> l)\<rparr>))
     ''L1'' ''L2'' ''true'' 5 6 7
     (\<lparr>vserver = ''vs1'', netapp_size_multiplier = (), ssc_vols = None, stale_vols = {},
       lun_table = [''L1'' \<mapsto> \<lparr>l_handle = ''vs1:/vol/P1/L1'', l_name = ''L1'',
                                l_size = Some ''1024'',
                                l_metadata = [''Volume'' \<mapsto> Some ''P1'']\<rparr>],
       zapi_client = ((), [])\<rparr> :: (unit \<times> clone_call list, unit, unit) driver)))
   = [(Some ''P1'', ''L1'', ''L2'', ''true'', 0, 0, 0)]
   \<and> clone_calls (snd (clone_lun
     (\<lambda>n a s. (Inr (case lun_table s n of None \<Rightarrow> None | Some l \<Rightarrow> Some (l_metadata l)), s))
     (recorded (\<lambda>vol n m r sb db bc b. (Inr (), b)))
     (\<lambda>vs path c. (Inr [[''vserver'' \<mapsto> ''vs1'', ''volume'' \<mapsto> ''P1'',
                          ''path'' \<mapsto> ''/vol/P1/L2'', ''size'' \<mapsto> ''1024'']], c))
     (\<lambda>e c. (Inr (), c))
     (\<lambda>l. modify (\<lambda>s. s\<lparr>lun_table := (lun_table s)(l_name l \<mapsto> l)\<rparr>))
     ''L9'' ''L2'' ''true'' 5 6 7
     (\<lparr>vserver = ''vs1'', netapp_size_multiplier = (), ssc_vols = None, stale_vols = {},
       lun_table = [''L1'' \<mapsto> \<lparr>l_handle = ''vs1:/vol/P1/L1'', l_name = ''L1'',
                                l_size = Some ''1024'',
                                l_metadata = [''Volume'' \<mapsto> Some ''P1'']\<rparr>],
       zapi_client = ((), [])\<rparr> :: (unit \<times> clone_call list, unit, unit) driver)))
   = []
   \<and> clone_lun
     (\<lambda>n a s. (Inr (case lun_table s n of None \<Rightarrow> None | Some l \<Rightarrow> Some (l_metadata l)), s))
     (\<lambda>vol n m r sb db bc log. (Inr (), log @ [(0, 0, 0)]))
     (\<lambda>vs path log. (Inr [], log))
     (\<lambda>e log. (Inr (), log))
     (\<lambda>l. modify (\<lambda>s. s\<lparr>lun_table := (lun_table s)(l_name l \<mapsto> l)\<rparr>))
     ''L1'' ''L2'' ''true'' 5 6 7
     (\<lparr>vserver = ''vs1'', netapp_size_multiplier = (), ssc_vols = None, stale_vols = {},
       lun_table = [''L1'' \<mapsto> \<lparr>l_handle = ''vs1:/vol/P1/L1'', l_name = ''L1'',
                                l_size = Some ''1024'',
                                l_metadata = [''Volume'' \<mapsto> Some ''P1'']\<rparr>],
       zapi_client = []\<rparr> :: ((int \<times> int \<times> int) list, unit, unit) driver)
   = clone_lun
     (\<lambda>n a s. (Inr (case lun_table s n of None \<Rightarrow> None | Some l \<Rightarrow> Some (l_metadata l)), s))
     (\<lambda>vol n m r sb db bc log. (Inr (), log @ [(sb, db, bc)]))
     (\<lambda>vs path log. (Inr [], log))
     (\<lambda>e log. (Inr (), log))
     (\<lambda>l. modify (\<lambda>s. s\<lparr>lun_table := (lun_table s)(l_name l \<mapsto> l)\<rparr>))
     ''L1'' ''L2'' ''true'' 5 6 7
     (\<lparr>vserver = ''vs1'', netapp_size_multiplier = (), ssc_vols = None, stale_vols = {},
       lun_table = [''L1'' \<mapsto> \<lparr>l_handle = ''vs1:/vol/P1/L1'', l_name = ''L1'',
                                l_size = Some ''1024'',
                                l_metadata = [''Volume'' \<mapsto> Some ''P1'']\<rparr>],
       zapi_client = []\<rparr> :: ((int \<times> int \<times> int) list, unit, unit) driver)"
proof (intro conjI)
  let ?g = "\<lambda>(n :: string) (a :: string) (s :: (unit \<times> clone_call list, unit, unit) driver).
              (Inr (case lun_table s n of None \<Rightarrow> None | Some l \<Rightarrow> Some (l_metadata l))
                 :: exc + (string \<rightharpoonup> string option) option, s)"
  let ?zc = "\<lambda>(vol :: string option) (n :: string) (m :: string) (r :: string)
               (sb :: int) (db :: int) (bc :: int) (b :: unit). (Inr () :: exc + unit, b)"
  let ?zg = "\<lambda>(vs :: string) (path :: string) (c :: unit \<times> clone_call list).
               (Inr [[''vserver'' \<mapsto> ''vs1'', ''volume'' \<mapsto> ''P1'',
                      ''path'' \<mapsto> ''/vol/P1/L2'', ''size'' \<mapsto> ''1024'']]
                  :: exc + NaElement list, c)"
  let ?zk = "\<lambda>(e :: NaElement) (c :: unit \<times> clone_call list). (Inr () :: exc + unit, c)"
  let ?ba = "\<lambda>l. modify (\<lambda>s :: (unit \<times> clone_call list, unit, unit) driver.
                           s\<lparr>lun_table := (lun_table s)(l_name l \<mapsto> l)\<rparr>)"
  let ?s = "\<lparr>vserver = ''vs1'', netapp_size_multiplier = (), ssc_vols = None, stale_vols = {},
             lun_table = [''L1'' \<mapsto> \<lparr>l_handle = ''vs1:/vol/P1/L1'', l_name = ''L1'',
                                      l_size = Some ''1024'',
                                      l_metadata = [''Volume'' \<mapsto> Some ''P1'']\<rparr>],
             zapi_client = ((), [])\<rparr> :: (unit \<times> clone_call list, unit, unit) driver"
  have quiet: "(\<forall>n a t. clone_calls (snd (?g n a t)) = clone_calls t)
      \<and> (\<forall>vs p c. snd (snd (?zg vs p c)) = snd c)
      \<and> (\<forall>e c. snd (snd (?zk e c)) = snd c)
      \<and> (\<forall>l t. clone_calls (snd (?ba l t)) = clone_calls t)"
    by (simp add: clone_calls_def modify_def)
  from clone_lun_invokes_zero_range
         [where g = ?g and zg = ?zg and zk = ?zk and ba = ?ba and zc = ?zc and s = ?s
            and name = "''L1''" and new_name = "''L2''" and sr = "''true''"
            and src_block = 5 and dest_block = 6 and block_count = 7,
          THEN conjunct1, THEN mp, OF quiet]
  show "clone_calls (snd (clone_lun ?g (recorded ?zc) ?zg ?zk ?ba ''L1'' ''L2'' ''true'' 5 6 7 ?s))
          = [(Some ''P1'', ''L1'', ''L2'', ''true'', 0, 0, 0)]"
    by (simp add: clone_calls_def)
  from clone_lun_invokes_zero_range
         [where g = ?g and zg = ?zg and zk = ?zk and ba = ?ba and zc = ?zc and s = ?s
            and name = "''L9''" and new_name = "''L2''" and sr = "''true''"
            and src_block = 5 and dest_block = 6 and block_count = 7,
          THEN conjunct1, THEN mp, OF quiet]
  show "clone_calls (snd (clone_lun ?g (recorded ?zc) ?zg ?zk ?ba ''L9'' ''L2'' ''true'' 5 6 7 ?s))
          = []"
    by (simp add: clone_calls_def)
  let ?rec = "\<lambda>(vol :: string option) (n :: string) (m :: string) (r :: string)
                (sb :: int) (db :: int) (bc :: int) (log :: (int \<times> int \<times> int) list).
                (Inr () :: exc + unit, log @ [(sb, db, bc)])"
  let ?zero = "\<lambda>(vol :: string option) (n :: string) (m :: string) (r :: string)
                 (sb :: int) (db :: int) (bc :: int) (log :: (int \<times> int \<times> int) list).
                 (Inr () :: exc + unit, log @ [(0 :: int, 0 :: int, 0 :: int)])"
  let ?g2 = "\<lambda>(n :: string) (a :: string) (s :: ((int \<times> int \<times> int) list, unit, unit) driver).
              (Inr (case lun_table s n of None \<Rightarrow> None | Some l \<Rightarrow> Some (l_metadata l))
                 :: exc + (string \<rightharpoonup> string option) option, s)"
  let ?zg2 = "\<lambda>(vs :: string) (path :: string) (log :: (int \<times> int \<times> int) list).
                (Inr [] :: exc + NaElement list, log)"
  let ?zk2 = "\<lambda>(e :: NaElement) (log :: (int \<times> int \<times> int) list). (Inr () :: exc + unit, log)"
  let ?ba2 = "\<lambda>l. modify (\<lambda>s :: ((int \<times> int \<times> int) list, unit, unit) driver.
                           s\<lparr>lun_table := (lun_table s)(l_name l \<mapsto> l)\<rparr>)"
  let ?s2 = "\<lparr>vserver = ''vs1'', netapp_size_multiplier = (), ssc_vols = None, stale_vols = {},
             lun_table = [''L1'' \<mapsto> \<lparr>l_handle = ''vs1:/vol/P1/L1'', l_name = ''L1'',
                                      l_size = Some ''1024'',
                                      l_metadata = [''Volume'' \<mapsto> Some ''P1'']\<rparr>],
             zapi_client = []\<rparr> :: ((int \<times> int \<times> int) list, unit, unit) driver"
  have agree: "\<forall>v n m r b. ?zero v n m r 0 0 0 b = ?rec v n m r 0 0 0 b"
    by simp
  from clone_lun_invokes_zero_range
         [where zp = ?rec and zp' = ?zero and g' = ?g2 and zg' = ?zg2 and zk' = ?zk2
            and ba' = ?ba2 and s' = ?s2 and name = "''L1''" and new_name = "''L2''"
            and sr = "''true''" and src_block = 5 and dest_block = 6 and block_count = 7,
          THEN conjunct2, THEN conjunct2, THEN mp, OF agree]
  show "clone_lun ?g2 ?zero ?zg2 ?zk2 ?ba2 ''L1'' ''L2'' ''true'' 5 6 7 ?s2
          = clone_lun ?g2 ?rec ?zg2 ?zk2 ?ba2 ''L1'' ''L2'' ''true'' 5 6 7 ?s2" .
qed

text \<open>
  C9. \<open>_get_fc_target_wwpns\<close> returns the same for \<open>include_partner=True\<close> and
  \<open>include_partner=False\<close>: the outcome is that of the client's
  \<open>get_fc_target_wwpns()\<close>, whatever the argument.
\<close>

theorem get_fc_target_wwpns_ignores_partner:
  "get_fc_target_wwpns z True s = get_fc_target_wwpns z False s
   \<and> get_fc_target_wwpns z include_partner s
       = (fst (z (zapi_client s)), s\<lparr>zapi_client := snd (z (zapi_client s))\<rparr>)"
  by (simp add: get_fc_target_wwpns_def on_client_def split: prod.splits)

text \<open>
  C10. \<open>_get_pool_stats\<close> leaves the driver state as it found it, whether it returns or
  raises: the catalog cache, the stale set and the LUN table are unchanged.
\<close>

theorem get_pool_stats_pure: "snd (get_pool_stats fl s) = s"
  unfolding get_pool_stats_def
  by (rule seq_frame)
     (simp add: gets_def, simp add: all_pools_frame ret_def split: option.splits)

end
